theory Spec2Isabelle
  imports Complex_Main "HOL-Library.List_Lexorder" "HOL-Library.Char_ord"
begin

section \<open>Medicare hospital administration: the storage layer and its routes\<close>

text \<open>
  The development embeds \<^verbatim>\<open>server/storage.ts\<close> (class \<^verbatim>\<open>DatabaseStorage\<close>),
  \<^verbatim>\<open>server/routes.ts\<close>, \<^verbatim>\<open>server/replitAuth.ts\<close> (the \<^verbatim>\<open>isAuthenticated\<close>
  middleware) and the table declarations of \<^verbatim>\<open>shared/schema.ts\<close>.

  Conventions of the embedding:
  \<^item> a table is the list of its rows, a row is a record with one field per column;
    a nullable column has an \<open>option\<close> type;
  \<^item> a \<^verbatim>\<open>timestamp\<close> is a number of milliseconds, \<^verbatim>\<open>new Date()\<close> and the
    database's \<^verbatim>\<open>now()\<close> are the parameter \<open>now\<close> of an operation, and the value
    of \<^verbatim>\<open>gen_random_uuid()\<close> is the parameter \<open>uuid\<close>;
  \<^item> a JavaScript number and a \<^verbatim>\<open>decimal\<close> column are exact rationals: the rounding of
    doubles and the rounding of the column to its scale are outside the model;
  \<^item> a violated constraint of the schema (primary key, unique, foreign key) makes the
    statement throw: the operation returns \<open>Inl\<close> of the error and no new state;
  \<^item> \<^verbatim>\<open>ORDER BY\<close> is not modelled: a query returns its rows in table order.
\<close>

subsection \<open>Values\<close>

type_synonym timestamp = nat
type_synonym json = string

text \<open>
  A property of an object passed to \<^verbatim>\<open>.values(...)\<close> or \<^verbatim>\<open>.set(...)\<close>: it is
  \<^verbatim>\<open>undefined\<close> (absent), or defined as \<^verbatim>\<open>null\<close> or as a value. An absent property
  takes the column's default in an insert and leaves the column as it is in an update.
\<close>

datatype 'a js_field = Undefined | Defined "'a option"

fun field_or :: "'a option \<Rightarrow> 'a js_field \<Rightarrow> 'a option" where
  "field_or d Undefined = d"
| "field_or d (Defined v) = v"

datatype db_error =
    UniqueViolation string
  | ForeignKeyViolation string

subsection \<open>Tables of \<^verbatim>\<open>shared/schema.ts\<close>\<close>

record user =
  user_id :: string
  user_email :: "string option"
  user_firstName :: "string option"
  user_lastName :: "string option"
  user_profileImageUrl :: "string option"
  user_role :: "string option"
  user_phone :: "string option"
  user_createdAt :: "timestamp option"
  user_updatedAt :: "timestamp option"

text \<open>\<^verbatim>\<open>UpsertUser = typeof users.$inferInsert\<close>: every column is optional.\<close>

record upsert_user =
  uu_id :: "string option"
  uu_email :: "string js_field"
  uu_firstName :: "string js_field"
  uu_lastName :: "string js_field"
  uu_profileImageUrl :: "string js_field"
  uu_role :: "string js_field"
  uu_phone :: "string js_field"
  uu_createdAt :: "timestamp js_field"
  uu_updatedAt :: "timestamp js_field"

record patient =
  pat_id :: string
  pat_patientId :: string
  pat_userId :: "string option"
  pat_firstName :: string
  pat_lastName :: string
  pat_dateOfBirth :: "string option"
  pat_gender :: "string option"
  pat_bloodGroup :: "string option"
  pat_phone :: string
  pat_email :: "string option"
  pat_address :: "string option"
  pat_emergencyContactName :: "string option"
  pat_emergencyContactPhone :: "string option"
  pat_medicalHistory :: "json option"
  pat_createdAt :: "timestamp option"
  pat_updatedAt :: "timestamp option"

text \<open>\<^verbatim>\<open>InsertPatient\<close>: the insert schema without \<^verbatim>\<open>id\<close>, \<^verbatim>\<open>createdAt\<close>, \<^verbatim>\<open>updatedAt\<close>.\<close>

record insert_patient =
  ip_patientId :: string
  ip_userId :: "string option"
  ip_firstName :: string
  ip_lastName :: string
  ip_dateOfBirth :: "string option"
  ip_gender :: "string option"
  ip_bloodGroup :: "string option"
  ip_phone :: string
  ip_email :: "string option"
  ip_address :: "string option"
  ip_emergencyContactName :: "string option"
  ip_emergencyContactPhone :: "string option"
  ip_medicalHistory :: "json option"

record doctor =
  doc_id :: string
  doc_userId :: "string option"
  doc_departmentId :: "string option"
  doc_specialization :: string
  doc_qualifications :: "string option"
  doc_consultationFee :: "rat option"
  doc_schedule :: "json option"
  doc_isAvailable :: "bool option"
  doc_createdAt :: "timestamp option"

record appointment =
  apt_id :: string
  apt_patientId :: string
  apt_doctorId :: string
  apt_departmentId :: "string option"
  apt_appointmentDate :: string
  apt_appointmentTime :: string
  apt_status :: "string option"
  apt_type :: "string option"
  apt_notes :: "string option"
  apt_diagnosis :: "string option"
  apt_prescription :: "json option"
  apt_createdAt :: "timestamp option"
  apt_updatedAt :: "timestamp option"

record labTestCatalogItem =
  cat_id :: string
  cat_name :: string
  cat_code :: string
  cat_description :: "string option"
  cat_normalRange :: "string option"
  cat_unit :: "string option"
  cat_sampleType :: "string option"
  cat_price :: rat
  cat_turnaroundTime :: "string option"
  cat_createdAt :: "timestamp option"

record labTest =
  lab_id :: string
  lab_patientId :: string
  lab_doctorId :: "string option"
  lab_appointmentId :: "string option"
  lab_testCatalogId :: string
  lab_status :: "string option"
  lab_results :: "json option"
  lab_collectedAt :: "timestamp option"
  lab_completedAt :: "timestamp option"
  lab_notes :: "string option"
  lab_createdAt :: "timestamp option"

record ward =
  ward_id :: string
  ward_name :: string
  ward_type :: string
  ward_floor :: "int option"
  ward_capacity :: int
  ward_chargePerDay :: rat
  ward_description :: "string option"
  ward_createdAt :: "timestamp option"

record bed =
  bed_id :: string
  bed_wardId :: string
  bed_bedNumber :: string
  bed_status :: "string option"
  bed_createdAt :: "timestamp option"

record admission =
  adm_id :: string
  adm_patientId :: string
  adm_bedId :: string
  adm_doctorId :: "string option"
  adm_admissionDate :: "timestamp option"
  adm_dischargeDate :: "timestamp option"
  adm_diagnosis :: "string option"
  adm_notes :: "string option"
  adm_status :: "string option"
  adm_createdAt :: "timestamp option"

text \<open>\<^verbatim>\<open>InsertAdmission\<close>: the insert schema without \<^verbatim>\<open>id\<close> and \<^verbatim>\<open>createdAt\<close>.\<close>

record insert_admission =
  ia_patientId :: string
  ia_bedId :: string
  ia_doctorId :: "string option"
  ia_admissionDate :: "timestamp js_field"
  ia_dischargeDate :: "timestamp option"
  ia_diagnosis :: "string option"
  ia_notes :: "string option"
  ia_status :: "string js_field"

record bill_item =
  item_description :: string
  item_quantity :: rat
  item_rate :: rat
  item_amount :: rat

record bill =
  bill_id :: string
  bill_billNumber :: string
  bill_patientId :: string
  bill_appointmentId :: "string option"
  bill_admissionId :: "string option"
  bill_items :: "bill_item list"
  bill_subtotal :: rat
  bill_discount :: "rat option"
  bill_tax :: "rat option"
  bill_total :: rat
  bill_paidAmount :: "rat option"
  bill_paymentStatus :: "string option"
  bill_paymentMethod :: "string option"
  bill_insuranceClaim :: "string option"
  bill_notes :: "string option"
  bill_createdAt :: "timestamp option"
  bill_updatedAt :: "timestamp option"

text \<open>
  \<^verbatim>\<open>InsertBill\<close>: the insert schema without \<^verbatim>\<open>id\<close>, \<^verbatim>\<open>createdAt\<close>, \<^verbatim>\<open>updatedAt\<close>.
  The bill number is a property the caller may leave out: \<^verbatim>\<open>createBill\<close> overwrites it.
\<close>

record insert_bill =
  ib_billNumber :: "string option"
  ib_patientId :: string
  ib_appointmentId :: "string option"
  ib_admissionId :: "string option"
  ib_items :: "bill_item list"
  ib_subtotal :: rat
  ib_discount :: "rat js_field"
  ib_tax :: "rat js_field"
  ib_total :: rat
  ib_paidAmount :: "rat js_field"
  ib_paymentStatus :: "string js_field"
  ib_paymentMethod :: "string option"
  ib_insuranceClaim :: "string option"
  ib_notes :: "string option"

record db =
  users :: "user list"
  patients :: "patient list"
  doctors :: "doctor list"
  appointments :: "appointment list"
  labTestCatalog :: "labTestCatalogItem list"
  labTests :: "labTest list"
  wards :: "ward list"
  beds :: "bed list"
  admissions :: "admission list"
  bills :: "bill list"

subsection \<open>JavaScript helpers\<close>

text \<open>
  \<^verbatim>\<open>const [x] = rows\<close>: the first row, or \<^verbatim>\<open>undefined\<close> when there is none.
\<close>

fun first :: "'a list \<Rightarrow> 'a option" where
  "first [] = None"
| "first (x # _) = Some x"

text \<open>Truthiness of an optional string: \<^verbatim>\<open>undefined\<close>, \<^verbatim>\<open>null\<close> and \<^verbatim>\<open>""\<close> are falsy.\<close>

definition truthy :: "string option \<Rightarrow> bool" where
  "truthy s = (case s of None \<Rightarrow> False | Some x \<Rightarrow> x \<noteq> [])"

text \<open>
  \<^verbatim>\<open>String(n)\<close> of a natural number: its decimal digits, most significant first.
  \<open>digit\<close> is only ever applied to a number below 10.
\<close>

definition digit :: "nat \<Rightarrow> char" where
  "digit k = ''0123456789'' ! k"

function js_String :: "nat \<Rightarrow> string" where
  "js_String n = (if n < 10 then [digit n] else js_String (n div 10) @ [digit (n mod 10)])"
  by pat_completeness auto
termination
  by (relation "measure id") auto

declare js_String.simps [simp del]

text \<open>
  \<^verbatim>\<open>s.padStart(targetLength, c)\<close> with a one-character pad: a string already as
  long as the target is returned as it is.
\<close>

definition padStart :: "nat \<Rightarrow> char \<Rightarrow> string \<Rightarrow> string" where
  "padStart targetLength c s = replicate (targetLength - length s) c @ s"

subsection \<open>Users\<close>

text \<open>
  \<^verbatim>\<open>getUser\<close>: \<^verbatim>\<open>const [user] = await db.select().from(users).where(eq(users.id, id))\<close>.
\<close>

definition getUser :: "string \<Rightarrow> db \<Rightarrow> user option" where
  "getUser i d = first (filter (\<lambda>u. user_id u = i) (users d))"

text \<open>The unique index on \<^verbatim>\<open>users.email\<close>: two rows never hold the same non-null email.\<close>

definition email_taken :: "string option \<Rightarrow> user list \<Rightarrow> bool" where
  "email_taken e rows = (case e of None \<Rightarrow> False | Some _ \<Rightarrow> e \<in> set (map user_email rows))"

text \<open>The \<^verbatim>\<open>DO UPDATE SET\<close> of \<^verbatim>\<open>upsertUser\<close>, applied to the row in conflict.\<close>

definition upsert_set :: "timestamp \<Rightarrow> upsert_user \<Rightarrow> user \<Rightarrow> user" where
  "upsert_set now userData u =
     u\<lparr> user_email := field_or (user_email u) (uu_email userData),
        user_firstName := field_or (user_firstName u) (uu_firstName userData),
        user_lastName := field_or (user_lastName u) (uu_lastName userData),
        user_profileImageUrl := field_or (user_profileImageUrl u) (uu_profileImageUrl userData),
        user_updatedAt := Some now \<rparr>"

text \<open>The row \<^verbatim>\<open>.values(userData)\<close> proposes for insertion, defaults filled in.\<close>

definition upsert_row :: "string \<Rightarrow> timestamp \<Rightarrow> upsert_user \<Rightarrow> user" where
  "upsert_row uuid now userData =
     \<lparr> user_id = (case uu_id userData of None \<Rightarrow> uuid | Some i \<Rightarrow> i),
       user_email = field_or None (uu_email userData),
       user_firstName = field_or None (uu_firstName userData),
       user_lastName = field_or None (uu_lastName userData),
       user_profileImageUrl = field_or None (uu_profileImageUrl userData),
       user_role = field_or (Some ''patient'') (uu_role userData),
       user_phone = field_or None (uu_phone userData),
       user_createdAt = field_or (Some now) (uu_createdAt userData),
       user_updatedAt = field_or (Some now) (uu_updatedAt userData) \<rparr>"

text \<open>
  \<^verbatim>\<open>upsertUser\<close>: insert, and on a conflict on \<^verbatim>\<open>users.id\<close> update the five listed
  columns of the existing row instead. The result is the returned row and the new state.
\<close>

definition upsertUser :: "string \<Rightarrow> timestamp \<Rightarrow> upsert_user \<Rightarrow> db \<Rightarrow> db_error + (user \<times> db)" where
  "upsertUser uuid now userData d =
     (let row = upsert_row uuid now userData in
      case filter (\<lambda>u. user_id u = user_id row) (users d) of
        [] \<Rightarrow>
          if email_taken (user_email row) (users d)
          then Inl (UniqueViolation ''users_email_unique'')
          else Inr (row, d\<lparr> users := users d @ [row] \<rparr>)
      | old # _ \<Rightarrow>
          let new = upsert_set now userData old in
          if email_taken (user_email new) (filter (\<lambda>u. user_id u \<noteq> user_id row) (users d))
          then Inl (UniqueViolation ''users_email_unique'')
          else Inr (new, d\<lparr> users := map (\<lambda>u. if user_id u = user_id row
                                                 then upsert_set now userData u else u) (users d) \<rparr>))"

text \<open>
  \<^verbatim>\<open>updateUserRole\<close>: \<^verbatim>\<open>update users set role, updatedAt where id = id returning *\<close>;
  the result is the first returned row, or \<^verbatim>\<open>undefined\<close>.
\<close>

definition updateUserRole :: "string \<Rightarrow> string \<Rightarrow> timestamp \<Rightarrow> db \<Rightarrow> user option \<times> db" where
  "updateUserRole i role now d =
     (let upd = (\<lambda>u. u\<lparr> user_role := Some role, user_updatedAt := Some now \<rparr>) in
      (first (map upd (filter (\<lambda>u. user_id u = i) (users d))),
       d\<lparr> users := map (\<lambda>u. if user_id u = i then upd u else u) (users d) \<rparr>))"

subsection \<open>Patients\<close>

text \<open>The patient code \<^verbatim>\<open>createPatient\<close> computes from the row count it read.\<close>

definition patient_code :: "nat \<Rightarrow> string" where
  "patient_code count = ''PAT-'' @ padStart 5 (CHR ''0'') (js_String (count + 1))"

text \<open>
  \<^verbatim>\<open>createPatient\<close>: count the rows, then insert \<^verbatim>\<open>{ ...patient, patientId }\<close>. The
  table has a primary key, a unique \<^verbatim>\<open>patient_id\<close> and a foreign key to \<^verbatim>\<open>users\<close>.
\<close>

definition createPatient :: "string \<Rightarrow> timestamp \<Rightarrow> insert_patient \<Rightarrow> db \<Rightarrow> db_error + (patient \<times> db)" where
  "createPatient uuid now patient d =
     (let count = length (patients d);
          patientId = patient_code count;
          newPatient =
            \<lparr> pat_id = uuid, pat_patientId = patientId, pat_userId = ip_userId patient,
              pat_firstName = ip_firstName patient, pat_lastName = ip_lastName patient,
              pat_dateOfBirth = ip_dateOfBirth patient, pat_gender = ip_gender patient,
              pat_bloodGroup = ip_bloodGroup patient, pat_phone = ip_phone patient,
              pat_email = ip_email patient, pat_address = ip_address patient,
              pat_emergencyContactName = ip_emergencyContactName patient,
              pat_emergencyContactPhone = ip_emergencyContactPhone patient,
              pat_medicalHistory = ip_medicalHistory patient,
              pat_createdAt = Some now, pat_updatedAt = Some now \<rparr>
      in if uuid \<in> set (map pat_id (patients d)) then Inl (UniqueViolation ''patients_pkey'')
         else if patientId \<in> set (map pat_patientId (patients d))
           then Inl (UniqueViolation ''patients_patient_id_unique'')
         else if (case ip_userId patient of None \<Rightarrow> False
                  | Some i \<Rightarrow> i \<notin> set (map user_id (users d)))
           then Inl (ForeignKeyViolation ''patients_user_id_users_id_fk'')
         else Inr (newPatient, d\<lparr> patients := patients d @ [newPatient] \<rparr>))"

subsection \<open>Admissions and beds\<close>

text \<open>\<^verbatim>\<open>db.update(beds).set({ status }).where(eq(beds.id, bedId))\<close>.\<close>

definition set_bed_status :: "string \<Rightarrow> string \<Rightarrow> bed list \<Rightarrow> bed list" where
  "set_bed_status bedId status rows =
     map (\<lambda>b. if bed_id b = bedId then b\<lparr> bed_status := Some status \<rparr> else b) rows"

text \<open>
  \<^verbatim>\<open>createAdmission\<close>: insert the admission, then set the bed it names to
  \<^verbatim>\<open>occupied\<close>. The insert throws when the generated id is taken or when the
  patient, the bed or the doctor it references does not exist; the update is then not
  reached.
\<close>

definition createAdmission :: "string \<Rightarrow> timestamp \<Rightarrow> insert_admission \<Rightarrow> db \<Rightarrow> db_error + (admission \<times> db)" where
  "createAdmission uuid now admission d =
     (let newAdmission =
            \<lparr> adm_id = uuid, adm_patientId = ia_patientId admission,
              adm_bedId = ia_bedId admission, adm_doctorId = ia_doctorId admission,
              adm_admissionDate = field_or (Some now) (ia_admissionDate admission),
              adm_dischargeDate = ia_dischargeDate admission,
              adm_diagnosis = ia_diagnosis admission, adm_notes = ia_notes admission,
              adm_status = field_or (Some ''admitted'') (ia_status admission),
              adm_createdAt = Some now \<rparr>
      in if uuid \<in> set (map adm_id (admissions d)) then Inl (UniqueViolation ''admissions_pkey'')
         else if ia_patientId admission \<notin> set (map pat_id (patients d))
           then Inl (ForeignKeyViolation ''admissions_patient_id_patients_id_fk'')
         else if ia_bedId admission \<notin> set (map bed_id (beds d))
           then Inl (ForeignKeyViolation ''admissions_bed_id_beds_id_fk'')
         else if (case ia_doctorId admission of None \<Rightarrow> False
                  | Some i \<Rightarrow> i \<notin> set (map doc_id (doctors d)))
           then Inl (ForeignKeyViolation ''admissions_doctor_id_doctors_id_fk'')
         else
           Inr (newAdmission,
                d\<lparr> admissions := admissions d @ [newAdmission],
                   beds := set_bed_status (ia_bedId admission) ''occupied'' (beds d) \<rparr>))"

text \<open>
  \<^verbatim>\<open>dischargePatient\<close>: update the admission and take the first returned row; when
  there is one, set its bed to \<^verbatim>\<open>available\<close>.
\<close>

definition dischargePatient :: "string \<Rightarrow> timestamp \<Rightarrow> db \<Rightarrow> admission option \<times> db" where
  "dischargePatient i now d =
     (let upd = (\<lambda>a. a\<lparr> adm_status := Some ''discharged'', adm_dischargeDate := Some now \<rparr>);
          d1 = d\<lparr> admissions := map (\<lambda>a. if adm_id a = i then upd a else a) (admissions d) \<rparr>
      in case first (map upd (filter (\<lambda>a. adm_id a = i) (admissions d))) of
           None \<Rightarrow> (None, d1)
         | Some admission \<Rightarrow>
             (Some admission,
              d1\<lparr> beds := set_bed_status (adm_bedId admission) ''available'' (beds d1) \<rparr>))"

subsection \<open>Bills\<close>

definition bill_number :: "nat \<Rightarrow> string" where
  "bill_number count = ''INV-'' @ padStart 6 (CHR ''0'') (js_String (count + 1))"

text \<open>
  \<^verbatim>\<open>createBill\<close>: count the rows, then insert \<^verbatim>\<open>{ ...bill, billNumber }\<close>. The table
  has a primary key, a unique \<^verbatim>\<open>bill_number\<close> and foreign keys to \<^verbatim>\<open>patients\<close>,
  \<^verbatim>\<open>appointments\<close> and \<^verbatim>\<open>admissions\<close>.
\<close>

definition createBill :: "string \<Rightarrow> timestamp \<Rightarrow> insert_bill \<Rightarrow> db \<Rightarrow> db_error + (bill \<times> db)" where
  "createBill uuid now bill d =
     (let count = length (bills d);
          billNumber = bill_number count;
          newBill =
            \<lparr> bill_id = uuid, bill_billNumber = billNumber, bill_patientId = ib_patientId bill,
              bill_appointmentId = ib_appointmentId bill, bill_admissionId = ib_admissionId bill,
              bill_items = ib_items bill, bill_subtotal = ib_subtotal bill,
              bill_discount = field_or (Some 0) (ib_discount bill),
              bill_tax = field_or (Some 0) (ib_tax bill),
              bill_total = ib_total bill,
              bill_paidAmount = field_or (Some 0) (ib_paidAmount bill),
              bill_paymentStatus = field_or (Some ''pending'') (ib_paymentStatus bill),
              bill_paymentMethod = ib_paymentMethod bill,
              bill_insuranceClaim = ib_insuranceClaim bill, bill_notes = ib_notes bill,
              bill_createdAt = Some now, bill_updatedAt = Some now \<rparr>
      in if uuid \<in> set (map bill_id (bills d)) then Inl (UniqueViolation ''bills_pkey'')
         else if billNumber \<in> set (map bill_billNumber (bills d))
           then Inl (UniqueViolation ''bills_bill_number_unique'')
         else if ib_patientId bill \<notin> set (map pat_id (patients d))
           then Inl (ForeignKeyViolation ''bills_patient_id_patients_id_fk'')
         else if (case ib_appointmentId bill of None \<Rightarrow> False
                  | Some i \<Rightarrow> i \<notin> set (map apt_id (appointments d)))
           then Inl (ForeignKeyViolation ''bills_appointment_id_appointments_id_fk'')
         else if (case ib_admissionId bill of None \<Rightarrow> False
                  | Some i \<Rightarrow> i \<notin> set (map adm_id (admissions d)))
           then Inl (ForeignKeyViolation ''bills_admission_id_admissions_id_fk'')
         else Inr (newBill, d\<lparr> bills := bills d @ [newBill] \<rparr>))"

text \<open>\<^verbatim>\<open>parseFloat(bill.paidAmount || "0")\<close>: a null column counts as 0.\<close>

definition paid_so_far :: "bill \<Rightarrow> rat" where
  "paid_so_far b = (case bill_paidAmount b of None \<Rightarrow> 0 | Some p \<Rightarrow> p)"

text \<open>
  \<^verbatim>\<open>recordPayment\<close>: read the bill (\<^verbatim>\<open>undefined\<close> when there is none), add the amount
  to what was paid, compare with the total, and write the four columns.
\<close>

definition recordPayment :: "string \<Rightarrow> rat \<Rightarrow> string \<Rightarrow> timestamp \<Rightarrow> db \<Rightarrow> bill option \<times> db" where
  "recordPayment i amount method now d =
     (case first (filter (\<lambda>b. bill_id b = i) (bills d)) of
        None \<Rightarrow> (None, d)
      | Some bill \<Rightarrow>
          (let newPaidAmount = paid_so_far bill + amount;
               total = bill_total bill;
               newStatus = (if newPaidAmount \<ge> total then ''paid'' else ''partial'');
               upd = (\<lambda>b. b\<lparr> bill_paidAmount := Some newPaidAmount,
                               bill_paymentStatus := Some newStatus,
                               bill_paymentMethod := Some method,
                               bill_updatedAt := Some now \<rparr>)
           in (first (map upd (filter (\<lambda>b. bill_id b = i) (bills d))),
               d\<lparr> bills := map (\<lambda>b. if bill_id b = i then upd b else b) (bills d) \<rparr>)))"

subsection \<open>Listings\<close>

text \<open>
  Each listing selects the rows, filtered by status when the argument is truthy, and
  looks up the rows each one references (the doctor only when the row names one:
  \<^verbatim>\<open>if (test.doctorId)\<close>). \<^verbatim>\<open>eq(column, status)\<close> is SQL equality: a row whose
  status is null never matches.
\<close>

definition doctor_with_user :: "db \<Rightarrow> string \<Rightarrow> (doctor \<times> user option) option" where
  "doctor_with_user d i =
     (case first (filter (\<lambda>x. doc_id x = i) (doctors d)) of
        None \<Rightarrow> None
      | Some doctor \<Rightarrow>
          Some (doctor,
                if truthy (doc_userId doctor)
                then first (filter (\<lambda>u. Some (user_id u) = doc_userId doctor) (users d))
                else None))"

type_synonym appointment_row = "appointment \<times> patient option \<times> (doctor \<times> user option) option"

definition getAppointments :: "string option \<Rightarrow> db \<Rightarrow> appointment_row list" where
  "getAppointments status d =
     (let appointmentList =
            (if truthy status then filter (\<lambda>a. apt_status a = status) (appointments d)
             else appointments d)
      in map (\<lambda>apt. (apt,
                      first (filter (\<lambda>p. pat_id p = apt_patientId apt) (patients d)),
                      doctor_with_user d (apt_doctorId apt))) appointmentList)"

type_synonym labTest_row =
  "labTest \<times> patient option \<times> labTestCatalogItem option \<times> (doctor \<times> user option) option"

definition getLabTests :: "string option \<Rightarrow> db \<Rightarrow> labTest_row list" where
  "getLabTests status d =
     (let testList =
            (if truthy status then filter (\<lambda>t. lab_status t = status) (labTests d)
             else labTests d)
      in map (\<lambda>test. (test,
                       first (filter (\<lambda>p. pat_id p = lab_patientId test) (patients d)),
                       first (filter (\<lambda>c. cat_id c = lab_testCatalogId test) (labTestCatalog d)),
                       case lab_doctorId test of
                         None \<Rightarrow> None
                       | Some i \<Rightarrow> if i \<noteq> [] then doctor_with_user d i else None)) testList)"

type_synonym admission_row =
  "admission \<times> patient option \<times> (bed \<times> ward option) option \<times> (doctor \<times> user option) option"

definition getAdmissions :: "string option \<Rightarrow> db \<Rightarrow> admission_row list" where
  "getAdmissions status d =
     (let admissionList =
            (if truthy status then filter (\<lambda>a. adm_status a = status) (admissions d)
             else admissions d)
      in map (\<lambda>admission.
                (admission,
                 first (filter (\<lambda>p. pat_id p = adm_patientId admission) (patients d)),
                 (case first (filter (\<lambda>b. bed_id b = adm_bedId admission) (beds d)) of
                    None \<Rightarrow> None
                  | Some bed \<Rightarrow>
                      Some (bed, first (filter (\<lambda>w. ward_id w = bed_wardId bed) (wards d)))),
                 case adm_doctorId admission of
                   None \<Rightarrow> None
                 | Some i \<Rightarrow> if i \<noteq> [] then doctor_with_user d i else None)) admissionList)"

type_synonym bill_row = "bill \<times> patient option"

definition getBills :: "string option \<Rightarrow> db \<Rightarrow> bill_row list" where
  "getBills status d =
     (let billList =
            (if truthy status then filter (\<lambda>b. bill_paymentStatus b = status) (bills d)
             else bills d)
      in map (\<lambda>bill. (bill, first (filter (\<lambda>p. pat_id p = bill_patientId bill) (patients d))))
           billList)"

subsection \<open>The \<^verbatim>\<open>isAuthenticated\<close> middleware\<close>

text \<open>
  What the middleware reads: the environment variable \<^verbatim>\<open>REPLIT_DEPLOYMENT_ID\<close> and
  the user passport attached to the request; \<^verbatim>\<open>req.isAuthenticated()\<close> holds when
  there is one.
\<close>

record env =
  REPLIT_DEPLOYMENT_ID :: "string option"

record request =
  req_user :: "user option"

datatype payload =
    JUser "user option"
  | JPatient patient
  | JAppointments "appointment_row list" nat
  | JLabTests "labTest_row list"
  | JAdmissions "admission_row list"
  | JAdmission "admission option"
  | JBills "bill_row list"
  | JBill "bill option"
  | JError string

record response =
  res_status :: nat
  res_body :: payload

text \<open>
  A handler behind the middleware: it gets the \<^verbatim>\<open>userId\<close> the middleware stored on
  the request and the state, and gives the response and the new state.
\<close>

type_synonym handler = "string \<Rightarrow> db \<Rightarrow> response \<times> db"

definition isAuthenticated :: "env \<Rightarrow> request \<Rightarrow> handler \<Rightarrow> db \<Rightarrow> response \<times> db" where
  "isAuthenticated e req next d =
     (if \<not> truthy (REPLIT_DEPLOYMENT_ID e) then next ''demo-user'' d
      else case req_user req of
             Some u \<Rightarrow> next (user_id u) d
           | None \<Rightarrow> (\<lparr> res_status = 401, res_body = JError ''Unauthorized'' \<rparr>, d))"

subsection \<open>Routes of \<^verbatim>\<open>server/routes.ts\<close>\<close>

text \<open>
  The routes modelled, each with what the handler reads of the request: path
  parameters, the query string and the body.
\<close>

datatype api_call =
    GetAuthUser
  | PatchUserRole string string
  | PostPatients insert_patient
  | GetAppointments "string option"
  | GetLabTests "string option"
  | GetAdmissions "string option"
  | PostAdmissions insert_admission
  | PatchAdmissionDischarge string
  | GetBills "string option"
  | PostBills string "bill_item list"
  | PostBillPayment string rat string

definition ok :: "payload \<Rightarrow> response" where
  "ok b = \<lparr> res_status = 200, res_body = b \<rparr>"

definition created :: "payload \<Rightarrow> response" where
  "created b = \<lparr> res_status = 201, res_body = b \<rparr>"

definition failed :: "string \<Rightarrow> response" where
  "failed msg = \<lparr> res_status = 500, res_body = JError msg \<rparr>"

text \<open>
  The body of each handler. A statement that throws is caught by the handler's
  \<^verbatim>\<open>catch\<close>, which answers 500; the state is then the one before the statement.
\<close>

fun handle :: "string \<Rightarrow> timestamp \<Rightarrow> api_call \<Rightarrow> handler" where
  "handle uuid now GetAuthUser userId d = (ok (JUser (getUser userId d)), d)"
| "handle uuid now (PatchUserRole i role) userId d =
     (case updateUserRole i role now d of (user, d') \<Rightarrow> (ok (JUser user), d'))"
| "handle uuid now (PostPatients body) userId d =
     (case createPatient uuid now body d of
        Inl _ \<Rightarrow> (failed ''Failed to create patient'', d)
      | Inr (patient, d') \<Rightarrow> (created (JPatient patient), d'))"
| "handle uuid now (GetAppointments status) userId d =
     (let appointments = getAppointments (if status \<noteq> Some ''all'' then status else None) d
      in (ok (JAppointments appointments (length appointments)), d))"
| "handle uuid now (GetLabTests status) userId d =
     (ok (JLabTests (getLabTests (if status \<noteq> Some ''all'' then status else None) d)), d)"
| "handle uuid now (GetAdmissions status) userId d = (ok (JAdmissions (getAdmissions status d)), d)"
| "handle uuid now (PostAdmissions body) userId d =
     (case createAdmission uuid now body d of
        Inl _ \<Rightarrow> (failed ''Failed to create admission'', d)
      | Inr (admission, d') \<Rightarrow> (created (JAdmission (Some admission)), d'))"
| "handle uuid now (PatchAdmissionDischarge i) userId d =
     (case dischargePatient i now d of (admission, d') \<Rightarrow> (ok (JAdmission admission), d'))"
| "handle uuid now (GetBills status) userId d = (ok (JBills (getBills status d)), d)"
| "handle uuid now (PostBills patientId items) userId d =
     (let subtotal = foldl (\<lambda>sum item. sum + item_amount item) 0 items
      in case createBill uuid now
                \<lparr> ib_billNumber = None, ib_patientId = patientId, ib_appointmentId = None,
                  ib_admissionId = None, ib_items = items, ib_subtotal = subtotal,
                  ib_discount = Undefined, ib_tax = Undefined, ib_total = subtotal,
                  ib_paidAmount = Undefined, ib_paymentStatus = Undefined,
                  ib_paymentMethod = None, ib_insuranceClaim = None, ib_notes = None \<rparr> d of
           Inl _ \<Rightarrow> (failed ''Failed to create bill'', d)
         | Inr (bill, d') \<Rightarrow> (created (JBill (Some bill)), d'))"
| "handle uuid now (PostBillPayment i amount paymentMethod) userId d =
     (case recordPayment i amount paymentMethod now d of (bill, d') \<Rightarrow> (ok (JBill bill), d'))"

text \<open>
  A route as registered: \<^verbatim>\<open>app.METHOD(path, isAuthenticated, handler)\<close>. Every route
  of \<^verbatim>\<open>registerRoutes\<close> is registered this way.
\<close>

definition serve :: "env \<Rightarrow> request \<Rightarrow> string \<Rightarrow> timestamp \<Rightarrow> api_call \<Rightarrow> db \<Rightarrow> response \<times> db" where
  "serve e req uuid now call d = isAuthenticated e req (handle uuid now call) d"

section \<open>Properties\<close>

subsection \<open>Predicates the properties are stated with\<close>

text \<open>The admissions with status \<^verbatim>\<open>admitted\<close> that reference a bed.\<close>

definition admitted_in :: "string \<Rightarrow> db \<Rightarrow> admission list" where
  "admitted_in bedId d =
     filter (\<lambda>a. adm_status a = Some ''admitted'' \<and> adm_bedId a = bedId) (admissions d)"

text \<open>
  The admission/bed invariant: a bed is \<^verbatim>\<open>occupied\<close> exactly when an admitted
  admission references it, and at most one admitted admission references a bed.
\<close>

definition bed_admission_inv :: "db \<Rightarrow> bool" where
  "bed_admission_inv d \<longleftrightarrow>
     (\<forall>b \<in> set (beds d). (bed_status b = Some ''occupied'') = (admitted_in (bed_id b) d \<noteq> []))
   \<and> (\<forall>b \<in> set (beds d). length (admitted_in (bed_id b) d) \<le> 1)"

text \<open>
  Two user rows that differ at most in the columns a login writes: email, first name,
  last name, profile image and the update time.
\<close>

definition login_fields_only :: "user \<Rightarrow> user \<Rightarrow> bool" where
  "login_fields_only old new \<longleftrightarrow>
     new = old\<lparr> user_email := user_email new, user_firstName := user_firstName new,
               user_lastName := user_lastName new, user_profileImageUrl := user_profileImageUrl new,
               user_updatedAt := user_updatedAt new \<rparr>"




text \<open>
  Decimal digits, the number a digit string denotes, and the two identifier patterns,
  matched against the whole string: \<^verbatim>\<open>PAT-\d{5}\<close> and \<^verbatim>\<open>INV-\d{6}\<close>.
\<close>

definition is_digit :: "char \<Rightarrow> bool" where
  "is_digit c \<longleftrightarrow> c \<in> set ''0123456789''"

definition digit_value :: "char \<Rightarrow> nat" where
  "digit_value c = of_char c - 48"

definition decimal_value :: "string \<Rightarrow> nat" where
  "decimal_value s = foldl (\<lambda>a c. 10 * a + digit_value c) 0 s"

definition matches_PAT :: "string \<Rightarrow> bool" where
  "matches_PAT s \<longleftrightarrow> take 4 s = ''PAT-'' \<and> length (drop 4 s) = 5 \<and> list_all is_digit (drop 4 s)"

definition matches_INV :: "string \<Rightarrow> bool" where
  "matches_INV s \<longleftrightarrow> take 4 s = ''INV-'' \<and> length (drop 4 s) = 6 \<and> list_all is_digit (drop 4 s)"

text \<open>The last \<open>k\<close> decimal digits of a number, leading zeros included.\<close>

fun fixed :: "nat \<Rightarrow> nat \<Rightarrow> string" where
  "fixed 0 n = []"
| "fixed (Suc k) n = fixed k (n div 10) @ [digit (n mod 10)]"

subsection \<open>Example states and requests\<close>

definition example_user :: user where
  "example_user =
     \<lparr> user_id = ''U1'', user_email = Some ''nurse@medicare.example'', user_firstName = Some ''Ann'',
       user_lastName = Some ''Lee'', user_profileImageUrl = None, user_role = Some ''nurse'',
       user_phone = None, user_createdAt = Some 0, user_updatedAt = Some 0 \<rparr>"

definition example_patient :: patient where
  "example_patient =
     \<lparr> pat_id = ''P1'', pat_patientId = ''PAT-00001'', pat_userId = None,
       pat_firstName = ''John'', pat_lastName = ''Smith'', pat_dateOfBirth = None,
       pat_gender = Some ''male'', pat_bloodGroup = Some ''A+'', pat_phone = ''+1 555-0101'',
       pat_email = None, pat_address = None, pat_emergencyContactName = None,
       pat_emergencyContactPhone = None, pat_medicalHistory = None,
       pat_createdAt = Some 0, pat_updatedAt = Some 0 \<rparr>"

definition example_bed :: bed where
  "example_bed =
     \<lparr> bed_id = ''B1'', bed_wardId = ''W1'', bed_bedNumber = ''G-101'',
       bed_status = Some ''available'', bed_createdAt = Some 0 \<rparr>"

text \<open>One user, one patient, one available bed, nothing else.\<close>

definition example_db :: db where
  "example_db =
     \<lparr> users = [example_user], patients = [example_patient], doctors = [], appointments = [],
       labTestCatalog = [], labTests = [], wards = [], beds = [example_bed],
       admissions = [], bills = [] \<rparr>"

definition admit_request :: insert_admission where
  "admit_request =
     \<lparr> ia_patientId = ''P1'', ia_bedId = ''B1'', ia_doctorId = None,
       ia_admissionDate = Undefined, ia_dischargeDate = None, ia_diagnosis = None,
       ia_notes = None, ia_status = Undefined \<rparr>"

definition example_admission :: admission where
  "example_admission =
     \<lparr> adm_id = ''A1'', adm_patientId = ''P1'', adm_bedId = ''B1'', adm_doctorId = None,
       adm_admissionDate = Some 5, adm_dischargeDate = None, adm_diagnosis = None,
       adm_notes = None, adm_status = Some ''admitted'', adm_createdAt = Some 5 \<rparr>"

text \<open>\<open>example_db\<close> after the patient was admitted into the bed, and after the discharge.\<close>

definition admitted_db :: db where
  "admitted_db =
     example_db\<lparr> admissions := [example_admission],
                 beds := [example_bed\<lparr> bed_status := Some ''occupied'' \<rparr>] \<rparr>"

definition discharged_db :: db where
  "discharged_db =
     example_db\<lparr> admissions := [example_admission\<lparr> adm_status := Some ''discharged'',
                                                    adm_dischargeDate := Some 9 \<rparr>] \<rparr>"

definition dev_env :: env where
  "dev_env = \<lparr> REPLIT_DEPLOYMENT_ID = None \<rparr>"

definition deployed_env :: env where
  "deployed_env = \<lparr> REPLIT_DEPLOYMENT_ID = Some ''deployment-1'' \<rparr>"

definition anonymous :: request where
  "anonymous = \<lparr> req_user = None \<rparr>"

definition logged_in :: request where
  "logged_in = \<lparr> req_user = Some example_user \<rparr>"

definition new_patient :: insert_patient where
  "new_patient =
     \<lparr> ip_patientId = '''', ip_userId = None, ip_firstName = ''Jane'', ip_lastName = ''Doe'',
       ip_dateOfBirth = None, ip_gender = None, ip_bloodGroup = None, ip_phone = ''+1 555-0199'',
       ip_email = None, ip_address = None, ip_emergencyContactName = None,
       ip_emergencyContactPhone = None, ip_medicalHistory = None \<rparr>"

text \<open>What the identity provider sends when the example user logs in.\<close>

definition login_claims :: upsert_user where
  "login_claims =
     \<lparr> uu_id = Some ''U1'', uu_email = Defined (Some ''ann.lee@medicare.example''),
       uu_firstName = Defined (Some ''Ann''), uu_lastName = Defined (Some ''Lee''),
       uu_profileImageUrl = Undefined, uu_role = Undefined, uu_phone = Undefined,
       uu_createdAt = Undefined, uu_updatedAt = Undefined \<rparr>"

text \<open>A bill of 1000 for the example patient, nothing paid yet.\<close>

definition example_items :: "bill_item list" where
  "example_items =
     [\<lparr> item_description = ''Consultation'', item_quantity = 1, item_rate = 500, item_amount = 500 \<rparr>,
      \<lparr> item_description = ''Bed charge'', item_quantity = 2, item_rate = 250, item_amount = 500 \<rparr>]"

definition example_bill :: bill where
  "example_bill =
     \<lparr> bill_id = ''BILL1'', bill_billNumber = ''INV-000001'', bill_patientId = ''P1'',
       bill_appointmentId = None, bill_admissionId = None, bill_items = example_items,
       bill_subtotal = 1000, bill_discount = Some 0, bill_tax = Some 0, bill_total = 1000,
       bill_paidAmount = Some 0, bill_paymentStatus = Some ''pending'',
       bill_paymentMethod = None, bill_insuranceClaim = None, bill_notes = None,
       bill_createdAt = Some 6, bill_updatedAt = Some 6 \<rparr>"

definition billed_db :: db where
  "billed_db = example_db\<lparr> bills := [example_bill] \<rparr>"


definition bill_request :: insert_bill where
  "bill_request =
     \<lparr> ib_billNumber = None, ib_patientId = ''P1'', ib_appointmentId = None,
       ib_admissionId = None, ib_items = [], ib_subtotal = 0,
       ib_discount = Undefined, ib_tax = Undefined, ib_total = 0,
       ib_paidAmount = Undefined, ib_paymentStatus = Undefined,
       ib_paymentMethod = None, ib_insuranceClaim = None, ib_notes = None \<rparr>"



text \<open>The example admission as a request with status \<^verbatim>\<open>discharged\<close> creates it.\<close>

definition never_admitted :: admission where
  "never_admitted = example_admission\<lparr> adm_status := Some ''discharged'' \<rparr>"

text \<open>A state with 99999 patients, numbered as \<^verbatim>\<open>createPatient\<close> numbers them.\<close>

definition numbered_patient :: "nat \<Rightarrow> patient" where
  "numbered_patient i =
     example_patient\<lparr> pat_id := ''patient-'' @ js_String i, pat_patientId := patient_code i \<rparr>"

definition crowded_db :: db where
  "crowded_db = example_db\<lparr> patients := map numbered_patient [0..<99999] \<rparr>"

text \<open>The patient \<^verbatim>\<open>createPatient\<close> adds to that state.\<close>

definition overflow_patient :: patient where
  "overflow_patient =
     \<lparr> pat_id = ''new-id'', pat_patientId = ''PAT-100000'', pat_userId = None,
       pat_firstName = ''Jane'', pat_lastName = ''Doe'', pat_dateOfBirth = None,
       pat_gender = None, pat_bloodGroup = None, pat_phone = ''+1 555-0199'',
       pat_email = None, pat_address = None, pat_emergencyContactName = None,
       pat_emergencyContactPhone = None, pat_medicalHistory = None,
       pat_createdAt = Some 5, pat_updatedAt = Some 5 \<rparr>"

section \<open>Proofs\<close>

subsection \<open>Lists as tables\<close>

lemma filter_map_unchanged:
  "(\<And>x. x \<in> set xs \<Longrightarrow> (if P x then g x = x else \<not> P (g x))) \<Longrightarrow> filter P (map g xs) = filter P xs"
  by (induction xs) (auto split: if_splits)

lemma map_upd_none: "\<forall>x \<in> set xs. f x \<noteq> i \<Longrightarrow> map (\<lambda>a. if f a = i then g a else a) xs = xs"
  by (induction xs) auto

lemma filter_key_distinct:
  "distinct (map f xs) \<Longrightarrow> a \<in> set xs \<Longrightarrow> filter (\<lambda>x. f x = f a) xs = [a]"
proof (induction xs)
  case Nil
  then show ?case by simp
next
  case (Cons x xs)
  show ?case
  proof (cases "x = a")
    case True
    have "\<forall>y \<in> set xs. f y \<noteq> f a" using Cons.prems(1) True by (fastforce simp: image_iff)
    then have "filter (\<lambda>x. f x = f a) xs = []" by (simp add: filter_empty_conv)
    then show ?thesis using True by simp
  next
    case False
    then have "a \<in> set xs" using Cons.prems(2) by simp
    moreover have "f x \<noteq> f a" using Cons.prems(1) \<open>a \<in> set xs\<close> by auto
    ultimately show ?thesis using Cons by simp
  qed
qed

lemma filter_hd_mem: "filter P xs = y # ys \<Longrightarrow> y \<in> set xs \<and> P y"
proof -
  assume "filter P xs = y # ys"
  then have "y \<in> set (filter P xs)" by simp
  then show ?thesis by simp
qed


subsection \<open>Decimal strings\<close>

lemma digit_cases: "j < 10 \<Longrightarrow> j \<in> {0, 1, 2, 3, 4, 5, 6, 7, 8, 9 :: nat}"
  by auto

lemma of_char_digit: "j < 10 \<Longrightarrow> of_char (digit j) = (48 + j :: nat)"
  using digit_cases[of j] by (auto simp: digit_def)

lemma is_digit_digit: "j < 10 \<Longrightarrow> is_digit (digit j)"
  using digit_cases[of j] by (auto simp: digit_def is_digit_def)

lemma digit_value_digit: "j < 10 \<Longrightarrow> digit_value (digit j) = j"
  by (simp add: digit_value_def of_char_digit)

lemma digit_less: "i < j \<Longrightarrow> j < 10 \<Longrightarrow> digit i < digit j"
  by (simp add: less_char_def of_char_digit)

lemma digit_0: "digit 0 = CHR ''0''"
  by (simp add: digit_def)

lemma length_fixed: "length (fixed k n) = k"
  by (induction k arbitrary: n) auto

lemma digits_fixed: "list_all is_digit (fixed k n)"
  by (induction k arbitrary: n) (auto simp: is_digit_digit)

lemma fixed_0: "fixed k 0 = replicate k (CHR ''0'')"
  by (induction k) (auto simp: digit_0 replicate_append_same)

lemma js_String_small: "n < 10 \<Longrightarrow> js_String n = [digit n]"
  by (simp add: js_String.simps[of n])

lemmas js_String_numeral = js_String.simps[of "numeral v"] for v

lemma replicate_numeral: "replicate (numeral v) x = x # replicate (pred_numeral v) x"
  by (simp add: numeral_eq_Suc)

lemma padStart_fixed:
  "n < 10 ^ Suc k \<Longrightarrow>
     length (js_String n) \<le> Suc k \<and> padStart (Suc k) (CHR ''0'') (js_String n) = fixed (Suc k) n"
proof (induction k arbitrary: n)
  case 0
  then show ?case by (simp add: js_String.simps[of n] padStart_def)
next
  case (Suc k)
  show ?case
  proof (cases "n < 10")
    case True
    then show ?thesis
      by (simp add: js_String.simps[of n] padStart_def fixed_0 replicate_append_same)
  next
    case False
    have "n div 10 < 10 ^ Suc k" using Suc.prems by (simp add: less_mult_imp_div_less)
    from Suc.IH[OF this] have len: "length (js_String (n div 10)) \<le> Suc k"
      and pad: "padStart (Suc k) (CHR ''0'') (js_String (n div 10)) = fixed (Suc k) (n div 10)"
      by auto
    have js: "js_String n = js_String (n div 10) @ [digit (n mod 10)]"
      using False by (simp add: js_String.simps[of n])
    have "padStart (Suc (Suc k)) (CHR ''0'') (js_String n)
            = padStart (Suc k) (CHR ''0'') (js_String (n div 10)) @ [digit (n mod 10)]"
      unfolding js padStart_def by simp
    then show ?thesis using len pad js by simp
  qed
qed

lemma decimal_value_snoc: "decimal_value (s @ [c]) = 10 * decimal_value s + digit_value c"
  by (simp add: decimal_value_def)

lemma decimal_value_js_String: "decimal_value (js_String n) = n"
proof (induction n rule: js_String.induct)
  case (1 n)
  show ?case
  proof (cases "n < 10")
    case True
    then show ?thesis
      by (simp add: js_String.simps[of n] decimal_value_def digit_value_digit)
  next
    case False
    then have "decimal_value (js_String n) = 10 * decimal_value (js_String (n div 10)) + digit_value (digit (n mod 10))"
      by (simp add: js_String.simps[of n] decimal_value_snoc)
    also have "\<dots> = 10 * (n div 10) + n mod 10"
      using 1 False by (simp add: digit_value_digit)
    finally show ?thesis by simp
  qed
qed

lemma decimal_value_zeros: "foldl (\<lambda>a c. 10 * a + digit_value c) 0 (replicate m (CHR ''0'')) = 0"
  by (induction m) (auto simp: digit_value_def)

lemma decimal_value_padStart: "decimal_value (padStart k (CHR ''0'') (js_String n)) = n"
  using decimal_value_js_String[of n]
  by (simp add: padStart_def decimal_value_def decimal_value_zeros)

lemma fixed_less: "n < m \<Longrightarrow> m < 10 ^ k \<Longrightarrow> fixed k n < fixed k m"
proof (induction k arbitrary: n m)
  case 0
  then show ?case by simp
next
  case (Suc k)
  have le: "n div 10 \<le> m div 10" using Suc.prems(1) by (simp add: div_le_mono)
  show ?case
  proof (cases "n div 10 = m div 10")
    case True
    have "n mod 10 < m mod 10"
      using Suc.prems(1) True by (metis div_mult_mod_eq nat_add_left_cancel_less)
    then have "digit (n mod 10) < digit (m mod 10)" by (simp add: digit_less)
    then show ?thesis using True by (simp add: list_less_def lexord_append_leftI)
  next
    case False
    then have lt: "n div 10 < m div 10" using le by simp
    have "m div 10 < 10 ^ k" using Suc.prems(2) by (simp add: less_mult_imp_div_less)
    from Suc.IH[OF lt this] have "(fixed k (n div 10), fixed k (m div 10)) \<in> lexord {(u, v). u < v}"
      by (simp add: list_less_def)
    then have "(fixed k (n div 10) @ [digit (n mod 10)], fixed k (m div 10) @ [digit (m mod 10)])
                 \<in> lexord {(u, v). u < v}"
      by (rule lexord_sufI) (simp add: length_fixed)
    then show ?thesis by (simp add: list_less_def)
  qed
qed

lemma prefix_less: "xs < ys \<Longrightarrow> p @ xs < p @ (ys :: string)"
  by (simp add: list_less_def lexord_append_leftI)

subsection \<open>Patient codes and bill numbers\<close>

lemma patient_code_fixed: "count + 1 < 100000 \<Longrightarrow> patient_code count = ''PAT-'' @ fixed 5 (count + 1)"
  using padStart_fixed[of "count + 1" 4] by (simp add: patient_code_def)

lemma bill_number_fixed: "count + 1 < 1000000 \<Longrightarrow> bill_number count = ''INV-'' @ fixed 6 (count + 1)"
  using padStart_fixed[of "count + 1" 5] by (simp add: bill_number_def)

lemma patient_code_matches: "count + 1 < 100000 \<Longrightarrow> matches_PAT (patient_code count)"
  by (simp add: patient_code_fixed matches_PAT_def length_fixed digits_fixed)

lemma bill_number_matches: "count + 1 < 1000000 \<Longrightarrow> matches_INV (bill_number count)"
  by (simp add: bill_number_fixed matches_INV_def length_fixed digits_fixed)

lemma patient_code_less: "c1 < c2 \<Longrightarrow> c2 + 1 < 100000 \<Longrightarrow> patient_code c1 < patient_code c2"
  using fixed_less[of "c1 + 1" "c2 + 1" 5] prefix_less[of "fixed 5 (c1 + 1)" "fixed 5 (c2 + 1)" "''PAT-''"]
  by (simp add: patient_code_fixed)

lemma bill_number_less: "c1 < c2 \<Longrightarrow> c2 + 1 < 1000000 \<Longrightarrow> bill_number c1 < bill_number c2"
  using fixed_less[of "c1 + 1" "c2 + 1" 6] prefix_less[of "fixed 6 (c1 + 1)" "fixed 6 (c2 + 1)" "''INV-''"]
  by (simp add: bill_number_fixed)

lemma patient_code_value: "decimal_value (drop 4 (patient_code count)) = count + 1"
  by (simp add: patient_code_def decimal_value_padStart)

lemma bill_number_value: "decimal_value (drop 4 (bill_number count)) = count + 1"
  by (simp add: bill_number_def decimal_value_padStart)


lemma overflow_codes:
  "patient_code 99998 = ''PAT-99999''" "patient_code 99999 = ''PAT-100000''"
  "bill_number 999998 = ''INV-999999''" "bill_number 999999 = ''INV-1000000''"
  by (simp_all add: patient_code_def bill_number_def padStart_def js_String_numeral js_String_small digit_def)

lemma overflow_order: "\<not> (''PAT-99999'' < ''PAT-100000'')" "\<not> matches_PAT ''PAT-100000''"
  "\<not> (''INV-999999'' < ''INV-1000000'')" "\<not> matches_INV ''INV-1000000''"
  by (simp_all add: matches_PAT_def matches_INV_def)

subsection \<open>Admission and bed stay in step\<close>

lemma createAdmission_Inr:
  assumes "uuid \<notin> set (map adm_id (admissions d))"
    and "ia_patientId a \<in> set (map pat_id (patients d))"
    and "ia_bedId a \<in> set (map bed_id (beds d))"
    and "case ia_doctorId a of None \<Rightarrow> True | Some i \<Rightarrow> i \<in> set (map doc_id (doctors d))"
  shows "\<exists>adm. createAdmission uuid now a d =
           Inr (adm, d\<lparr> admissions := admissions d @ [adm],
                        beds := set_bed_status (ia_bedId a) ''occupied'' (beds d) \<rparr>)
         \<and> adm_id adm = uuid \<and> adm_bedId adm = ia_bedId a \<and> adm_patientId adm = ia_patientId a
         \<and> adm_status adm = field_or (Some ''admitted'') (ia_status a)"
  using assms by (auto simp: createAdmission_def Let_def set_bed_status_def split: option.splits)

lemma admitted_in_append:
  "admissions d' = admissions d @ [adm] \<Longrightarrow>
   admitted_in bid d' = admitted_in bid d @ (if adm_status adm = Some ''admitted'' \<and> adm_bedId adm = bid then [adm] else [])"
  by (simp add: admitted_in_def)

lemma inv_after_admit:
  assumes inv: "bed_admission_inv d"
    and avail: "b0 \<in> set (beds d)" "bed_id b0 = B" "bed_status b0 = Some ''available''"
    and adm: "adm_status adm = Some ''admitted''" "adm_bedId adm = B"
    and d': "admissions d' = admissions d @ [adm]" "beds d' = set_bed_status B ''occupied'' (beds d)"
  shows "bed_admission_inv d' \<and> admitted_in B d' = [adm]"
proof -
  have empty: "admitted_in B d = []"
    using inv avail unfolding bed_admission_inv_def by force
  have B: "admitted_in B d' = [adm]"
    using admitted_in_append[OF d'(1), of B] adm empty by simp
  have other: "admitted_in bid d' = admitted_in bid d" if "bid \<noteq> B" for bid
    using admitted_in_append[OF d'(1), of bid] adm that by simp
  have "(bed_status b' = Some ''occupied'') = (admitted_in (bed_id b') d' \<noteq> []) \<and>
        length (admitted_in (bed_id b') d') \<le> 1" if "b' \<in> set (beds d')" for b'
  proof -
    from that obtain b where b: "b \<in> set (beds d)"
      "b' = (if bed_id b = B then b\<lparr> bed_status := Some ''occupied'' \<rparr> else b)"
      unfolding d'(2) set_bed_status_def by auto
    show ?thesis
    proof (cases "bed_id b = B")
      case True
      then show ?thesis using b B by simp
    next
      case False
      then have "b' = b" "bed_id b' \<noteq> B" using b by auto
      then show ?thesis using other[of "bed_id b'"] inv b(1) unfolding bed_admission_inv_def by simp
    qed
  qed
  then show ?thesis using B unfolding bed_admission_inv_def by blast
qed

lemma dischargePatient_existing:
  assumes pk: "distinct (map adm_id (admissions d))" and a0: "a0 \<in> set (admissions d)"
  shows "dischargePatient (adm_id a0) now d =
           (Some (a0\<lparr> adm_status := Some ''discharged'', adm_dischargeDate := Some now \<rparr>),
            d\<lparr> admissions := map (\<lambda>a. if adm_id a = adm_id a0
                                       then a\<lparr> adm_status := Some ''discharged'', adm_dischargeDate := Some now \<rparr>
                                       else a) (admissions d),
               beds := set_bed_status (adm_bedId a0) ''available'' (beds d) \<rparr>)"
  using filter_key_distinct[OF pk a0]
  by (simp add: dischargePatient_def Let_def)

lemma inv_after_discharge:
  assumes inv: "bed_admission_inv d"
    and pk: "distinct (map adm_id (admissions d))"
    and a0: "a0 \<in> set (admissions d)" "adm_status a0 = Some ''admitted''"
    and d': "admissions d' = map (\<lambda>a. if adm_id a = adm_id a0
                                       then a\<lparr> adm_status := Some ''discharged'', adm_dischargeDate := Some now \<rparr>
                                       else a) (admissions d)"
            "beds d' = set_bed_status (adm_bedId a0) ''available'' (beds d)"
  shows "bed_admission_inv d'"
proof -
  let ?B = "adm_bedId a0"
  let ?g = "\<lambda>a. if adm_id a = adm_id a0
             then a\<lparr> adm_status := Some ''discharged'', adm_dischargeDate := Some now \<rparr> else a"
  have only: "x = a0" if "x \<in> set (admissions d)" "adm_id x = adm_id a0" for x
    using that pk a0(1) by (meson distinct_map inj_onD)
  have other: "admitted_in bid d' = admitted_in bid d" if "bid \<noteq> ?B" for bid
    unfolding admitted_in_def d'(1)
    by (rule filter_map_unchanged) (use that only in auto)
  have B: "admitted_in ?B d' = []" if "length (admitted_in ?B d) \<le> 1"
  proof -
    have "a0 \<in> set (admitted_in ?B d)" using a0 by (simp add: admitted_in_def)
    with that have one: "set (admitted_in ?B d) = {a0}"
      by (cases "admitted_in ?B d") auto
    have none: "\<not> (adm_status (?g x) = Some ''admitted'' \<and> adm_bedId (?g x) = ?B)"
      if "x \<in> set (admissions d)" for x
    proof (cases "adm_id x = adm_id a0")
      case True
      then show ?thesis by simp
    next
      case False
      then have "x \<noteq> a0" by auto
      then have "x \<notin> set (admitted_in ?B d)" using one by simp
      then show ?thesis using that False by (simp add: admitted_in_def)
    qed
    show ?thesis unfolding admitted_in_def d'(1) filter_empty_conv set_map
      using none by blast
  qed
  have "(bed_status b' = Some ''occupied'') = (admitted_in (bed_id b') d' \<noteq> []) \<and>
        length (admitted_in (bed_id b') d') \<le> 1" if "b' \<in> set (beds d')" for b'
  proof -
    from that obtain b where b: "b \<in> set (beds d)"
      "b' = (if bed_id b = ?B then b\<lparr> bed_status := Some ''available'' \<rparr> else b)"
      unfolding d'(2) set_bed_status_def by auto
    show ?thesis
    proof (cases "bed_id b = ?B")
      case True
      then have "length (admitted_in ?B d) \<le> 1"
        using inv b(1) unfolding bed_admission_inv_def by metis
      from B[OF this] True b show ?thesis by simp
    next
      case False
      then have "b' = b" "bed_id b' \<noteq> ?B" using b by auto
      then show ?thesis using other[of "bed_id b'"] inv b(1) unfolding bed_admission_inv_def by simp
    qed
  qed
  then show ?thesis unfolding bed_admission_inv_def by blast
qed

text \<open>
  Claim C1, as amended. In a state where the admission/bed invariant holds:
  \<^item> \<^verbatim>\<open>createAdmission\<close> into an existing bed with status \<^verbatim>\<open>available\<close>, for an
    existing patient (and doctor, if one is named), with a fresh id, and with the status
    left out or given as \<^verbatim>\<open>admitted\<close>, succeeds: the new admission has status
    \<^verbatim>\<open>admitted\<close>, it is the one admitted admission of the bed, the bed is
    \<^verbatim>\<open>occupied\<close>, and the invariant holds again;
  \<^item> \<^verbatim>\<open>dischargePatient\<close> of an existing admission with status \<^verbatim>\<open>admitted\<close>
    (admission ids being unique, as the primary key makes them) returns that admission
    with status \<^verbatim>\<open>discharged\<close> and the discharge date set, stores it, sets the bed to
    \<^verbatim>\<open>available\<close>, and the invariant holds again.
\<close>

theorem admission_bed_sync:
  "(bed_admission_inv d \<and> uuid \<notin> set (map adm_id (admissions d))
      \<and> ia_patientId a \<in> set (map pat_id (patients d))
      \<and> (case ia_doctorId a of None \<Rightarrow> True | Some i \<Rightarrow> i \<in> set (map doc_id (doctors d)))
      \<and> (\<exists>b \<in> set (beds d). bed_id b = ia_bedId a \<and> bed_status b = Some ''available'')
      \<and> field_or (Some ''admitted'') (ia_status a) = Some ''admitted''
    \<longrightarrow> (\<exists>adm d'. createAdmission uuid now a d = Inr (adm, d')
          \<and> admissions d' = admissions d @ [adm]
          \<and> beds d' = set_bed_status (ia_bedId a) ''occupied'' (beds d)
          \<and> adm_status adm = Some ''admitted'' \<and> adm_bedId adm = ia_bedId a
          \<and> (\<forall>b \<in> set (beds d'). bed_id b = ia_bedId a \<longrightarrow> bed_status b = Some ''occupied'')
          \<and> admitted_in (ia_bedId a) d' = [adm]
          \<and> bed_admission_inv d'))
 \<and> (bed_admission_inv d \<and> distinct (map adm_id (admissions d))
      \<and> a0 \<in> set (admissions d) \<and> adm_status a0 = Some ''admitted''
    \<longrightarrow> (\<exists>adm d'. dischargePatient (adm_id a0) now d = (Some adm, d')
          \<and> adm = a0\<lparr> adm_status := Some ''discharged'', adm_dischargeDate := Some now \<rparr>
          \<and> adm \<in> set (admissions d')
          \<and> beds d' = set_bed_status (adm_bedId a0) ''available'' (beds d)
          \<and> (\<forall>b \<in> set (beds d'). bed_id b = adm_bedId a0 \<longrightarrow> bed_status b = Some ''available'')
          \<and> bed_admission_inv d'))"
proof (intro conjI impI)
  assume h: "bed_admission_inv d \<and> uuid \<notin> set (map adm_id (admissions d))
      \<and> ia_patientId a \<in> set (map pat_id (patients d))
      \<and> (case ia_doctorId a of None \<Rightarrow> True | Some i \<Rightarrow> i \<in> set (map doc_id (doctors d)))
      \<and> (\<exists>b \<in> set (beds d). bed_id b = ia_bedId a \<and> bed_status b = Some ''available'')
      \<and> field_or (Some ''admitted'') (ia_status a) = Some ''admitted''"
  then obtain b0 where b0: "b0 \<in> set (beds d)" "bed_id b0 = ia_bedId a"
    "bed_status b0 = Some ''available''" by blast
  have bed: "ia_bedId a \<in> set (map bed_id (beds d))" using b0 by force
  from createAdmission_Inr[of uuid d a now] h bed
  obtain adm where adm: "createAdmission uuid now a d =
           Inr (adm, d\<lparr> admissions := admissions d @ [adm],
                        beds := set_bed_status (ia_bedId a) ''occupied'' (beds d) \<rparr>)"
     "adm_bedId adm = ia_bedId a" "adm_status adm = Some ''admitted''"
    by auto
  let ?d' = "d\<lparr> admissions := admissions d @ [adm],
                 beds := set_bed_status (ia_bedId a) ''occupied'' (beds d) \<rparr>"
  have inv': "bed_admission_inv ?d' \<and> admitted_in (ia_bedId a) ?d' = [adm]"
    by (rule inv_after_admit[OF _ b0 adm(3) adm(2)]) (use h in simp_all)
  have occ: "\<forall>b \<in> set (beds ?d'). bed_id b = ia_bedId a \<longrightarrow> bed_status b = Some ''occupied''"
    by (auto simp: set_bed_status_def)
  show "\<exists>adm d'. createAdmission uuid now a d = Inr (adm, d')
          \<and> admissions d' = admissions d @ [adm]
          \<and> beds d' = set_bed_status (ia_bedId a) ''occupied'' (beds d)
          \<and> adm_status adm = Some ''admitted'' \<and> adm_bedId adm = ia_bedId a
          \<and> (\<forall>b \<in> set (beds d'). bed_id b = ia_bedId a \<longrightarrow> bed_status b = Some ''occupied'')
          \<and> admitted_in (ia_bedId a) d' = [adm]
          \<and> bed_admission_inv d'"
    apply (rule exI[of _ adm])
    apply (rule exI[of _ ?d'])
    using adm inv' occ by simp
next
  assume h: "bed_admission_inv d \<and> distinct (map adm_id (admissions d))
      \<and> a0 \<in> set (admissions d) \<and> adm_status a0 = Some ''admitted''"
  let ?adm = "a0\<lparr> adm_status := Some ''discharged'', adm_dischargeDate := Some now \<rparr>"
  let ?d' = "d\<lparr> admissions := map (\<lambda>a. if adm_id a = adm_id a0
                                       then a\<lparr> adm_status := Some ''discharged'', adm_dischargeDate := Some now \<rparr>
                                       else a) (admissions d),
               beds := set_bed_status (adm_bedId a0) ''available'' (beds d) \<rparr>"
  have run: "dischargePatient (adm_id a0) now d = (Some ?adm, ?d')"
    by (rule dischargePatient_existing) (use h in simp_all)
  have inv': "bed_admission_inv ?d'"
    by (rule inv_after_discharge[of d a0 _ now]) (use h in simp_all)
  have mem: "?adm \<in> set (admissions ?d')"
    using h by force
  have av: "\<forall>b \<in> set (beds ?d'). bed_id b = adm_bedId a0 \<longrightarrow> bed_status b = Some ''available''"
    by (auto simp: set_bed_status_def)
  show "\<exists>adm d'. dischargePatient (adm_id a0) now d = (Some adm, d')
          \<and> adm = a0\<lparr> adm_status := Some ''discharged'', adm_dischargeDate := Some now \<rparr>
          \<and> adm \<in> set (admissions d')
          \<and> beds d' = set_bed_status (adm_bedId a0) ''available'' (beds d)
          \<and> (\<forall>b \<in> set (beds d'). bed_id b = adm_bedId a0 \<longrightarrow> bed_status b = Some ''available'')
          \<and> bed_admission_inv d'"
    apply (rule exI[of _ ?adm])
    apply (rule exI[of _ ?d'])
    using run inv' mem av by simp
qed

text \<open>
  The theorem at work: admitting the example patient into bed \<open>B1\<close> and discharging
  the admission again, with the invariant before, between and after.
\<close>

theorem admission_bed_sync_witness:
  "bed_admission_inv example_db
   \<and> createAdmission ''A1'' 5 admit_request example_db = Inr (example_admission, admitted_db)
   \<and> bed_admission_inv admitted_db
   \<and> dischargePatient ''A1'' 9 admitted_db =
        (Some (example_admission\<lparr> adm_status := Some ''discharged'', adm_dischargeDate := Some 9 \<rparr>),
         discharged_db)
   \<and> bed_admission_inv discharged_db"
  using admission_bed_sync[where d = example_db and uuid = "''A1''" and a = admit_request and now = 5]
    admission_bed_sync[where d = admitted_db and ?a0.0 = example_admission and now = 9]
  by (simp add: bed_admission_inv_def admitted_in_def example_db_def admitted_db_def
      discharged_db_def example_bed_def example_patient_def admit_request_def
      example_admission_def createAdmission_def dischargePatient_def set_bed_status_def Let_def)

text \<open>
  Claim C1 as stated fails: \<^verbatim>\<open>InsertAdmission\<close> has a \<^verbatim>\<open>status\<close> property, and
  \<^verbatim>\<open>createAdmission\<close> inserts what it is given. A request with status
  \<^verbatim>\<open>discharged\<close> for an available bed creates an admission that is not admitted and
  still marks the bed \<^verbatim>\<open>occupied\<close>, which breaks the invariant.
\<close>

theorem createAdmission_status_counterexample:
  "bed_admission_inv example_db
   \<and> bed_status example_bed = Some ''available''
   \<and> createAdmission ''A1'' 5 (admit_request\<lparr> ia_status := Defined (Some ''discharged'') \<rparr>)
         example_db
       = Inr (never_admitted, admitted_db\<lparr> admissions := [never_admitted] \<rparr>)
   \<and> adm_status never_admitted = Some ''discharged''
   \<and> \<not> bed_admission_inv (admitted_db\<lparr> admissions := [never_admitted] \<rparr>)"
  by (simp add: bed_admission_inv_def admitted_in_def example_db_def admitted_db_def
      example_bed_def example_patient_def admit_request_def never_admitted_def
      example_admission_def createAdmission_def set_bed_status_def Let_def)

subsection \<open>Recording a payment\<close>




subsection \<open>The status a payment leaves\<close>





subsection \<open>Totals of a new bill\<close>






subsection \<open>Listing by status\<close>

text \<open>
  The rows each listing returns: those with the given status when the argument is
  truthy, all rows otherwise.
\<close>

lemma getAppointments_rows:
  "map fst (getAppointments status d) =
     (if truthy status then filter (\<lambda>a. apt_status a = status) (appointments d) else appointments d)"
  by (simp add: getAppointments_def Let_def comp_def)

lemma getLabTests_rows:
  "map fst (getLabTests status d) =
     (if truthy status then filter (\<lambda>t. lab_status t = status) (labTests d) else labTests d)"
  by (simp add: getLabTests_def Let_def comp_def)

lemma getAdmissions_rows:
  "map fst (getAdmissions status d) =
     (if truthy status then filter (\<lambda>a. adm_status a = status) (admissions d) else admissions d)"
  by (simp add: getAdmissions_def Let_def comp_def)

lemma getBills_rows:
  "map fst (getBills status d) =
     (if truthy status then filter (\<lambda>b. bill_paymentStatus b = status) (bills d) else bills d)"
  by (simp add: getBills_def Let_def comp_def)

text \<open>
  The routes for appointments and lab tests turn the status \<^verbatim>\<open>all\<close> into no status
  before they call the storage; the routes for admissions and bills pass it on, and
  the storage then selects the rows whose status is the string \<^verbatim>\<open>all\<close>.
\<close>

lemma appointments_route_all:
  "handle uuid now (GetAppointments (Some ''all'')) userId d = handle uuid now (GetAppointments None) userId d"
  "handle uuid now (GetLabTests (Some ''all'')) userId d = handle uuid now (GetLabTests None) userId d"
  by simp_all

lemma admissions_route_all:
  "handle uuid now (GetAdmissions (Some ''all'')) userId d
     = (ok (JAdmissions (getAdmissions (Some ''all'') d)), d)"
  "map fst (getAdmissions (Some ''all'') d) = filter (\<lambda>a. adm_status a = Some ''all'') (admissions d)"
  "handle uuid now (GetBills (Some ''all'')) userId d = (ok (JBills (getBills (Some ''all'') d)), d)"
  "map fst (getBills (Some ''all'') d) = filter (\<lambda>b. bill_paymentStatus b = Some ''all'') (bills d)"
  by (simp_all add: getAdmissions_rows getBills_rows truthy_def)

text \<open>
  Claim C5 fails for admissions and bills. With one admitted admission in the table,
  \<^verbatim>\<open>GET /api/admissions?status=all\<close> answers with an empty list, and with one bill in
  the table \<^verbatim>\<open>GET /api/bills?status=all\<close> does; with no status both listings return
  the row.
\<close>

theorem admissions_status_all:
  "admissions admitted_db = [example_admission]
   \<and> fst (handle ''x'' 9 (GetAdmissions (Some ''all'')) ''U1'' admitted_db) = ok (JAdmissions [])
   \<and> bills billed_db = [example_bill]
   \<and> fst (handle ''x'' 9 (GetBills (Some ''all'')) ''U1'' billed_db) = ok (JBills [])
   \<and> map fst (getAdmissions None admitted_db) = [example_admission]
   \<and> map fst (getBills None billed_db) = [example_bill]"
  by (simp add: getAdmissions_def getBills_def truthy_def Let_def admitted_db_def billed_db_def
      example_db_def example_admission_def example_bill_def)

subsection \<open>Discharging an admission that does not exist\<close>

lemma dischargePatient_no_row:
  assumes "i \<notin> set (map adm_id (admissions d))"
  shows "dischargePatient i now d = (None, d)"
proof -
  have "filter (\<lambda>a. adm_id a = i) (admissions d) = []"
    using assms by (auto simp: filter_empty_conv)
  moreover have "map (\<lambda>a. if adm_id a = i then a\<lparr> adm_status := Some ''discharged'', adm_dischargeDate := Some now \<rparr> else a) (admissions d) = admissions d"
    by (rule map_upd_none) (use assms in auto)
  ultimately show ?thesis by (simp add: dischargePatient_def Let_def)
qed

text \<open>
  Claim C6. For an id that no admission has, \<^verbatim>\<open>dischargePatient\<close> returns
  \<^verbatim>\<open>undefined\<close> and the state is the one it started from (so no bed changes); the
  route answers 200 with that empty result, not an error.
\<close>

theorem dischargePatient_missing_admission:
  assumes "i \<notin> set (map adm_id (admissions d))"
  shows "dischargePatient i now d = (None, d)
       \<and> handle uuid now (PatchAdmissionDischarge i) userId d = (ok (JAdmission None), d)"
  using dischargePatient_no_row[OF assms] by simp

theorem dischargePatient_missing_admission_witness:
  "''A7'' \<notin> set (map adm_id (admissions admitted_db))
   \<and> dischargePatient ''A7'' 9 admitted_db = (None, admitted_db)
   \<and> beds (snd (dischargePatient ''A7'' 9 admitted_db)) = beds admitted_db"
  using dischargePatient_missing_admission[of "''A7''" admitted_db 9]
  by (simp add: admitted_db_def example_db_def example_admission_def)

subsection \<open>Admitting with a reference that does not exist\<close>

text \<open>
  Claim C7, as amended. When the patient or the bed of an admission request does not
  exist, the insert throws (a foreign key is violated), the handler's \<^verbatim>\<open>catch\<close>
  answers 500 with \<^verbatim>\<open>Failed to create admission\<close>, and the state is unchanged: no
  admission row, no bed status. Whatever the middleware decides, the response is never
  a 404.
\<close>

theorem createAdmission_missing_reference:
  assumes "ia_patientId a \<notin> set (map pat_id (patients d)) \<or> ia_bedId a \<notin> set (map bed_id (beds d))"
  shows "(\<exists>e. createAdmission uuid now a d = Inl e)
       \<and> handle uuid now (PostAdmissions a) userId d = (failed ''Failed to create admission'', d)
       \<and> res_status (failed ''Failed to create admission'') = 500
       \<and> snd (serve e req uuid now (PostAdmissions a) d) = d
       \<and> res_status (fst (serve e req uuid now (PostAdmissions a) d)) \<noteq> 404"
proof -
  have err: "\<exists>e. createAdmission uuid now a d = Inl e"
    using assms by (auto simp: createAdmission_def Let_def)
  then have h: "handle uuid now (PostAdmissions a) userId d = (failed ''Failed to create admission'', d)" for userId
    by auto
  show ?thesis
    using err h by (auto simp: failed_def serve_def isAuthenticated_def split: option.splits)
qed

theorem createAdmission_missing_reference_witness:
  "ia_bedId (admit_request\<lparr> ia_bedId := ''B9'' \<rparr>) \<notin> set (map bed_id (beds example_db))
   \<and> serve deployed_env logged_in ''A1'' 5 (PostAdmissions (admit_request\<lparr> ia_bedId := ''B9'' \<rparr>)) example_db
       = (failed ''Failed to create admission'', example_db)"
  using createAdmission_missing_reference[of "admit_request\<lparr> ia_bedId := ''B9'' \<rparr>" example_db "''A1''" 5 "''U1''"]
  by (simp add: serve_def isAuthenticated_def deployed_env_def logged_in_def truthy_def
      example_user_def admit_request_def example_db_def example_bed_def)

text \<open>
  Claim C7 as stated fails: an authenticated request naming bed \<open>B9\<close>, which does not
  exist, is answered with 500, not 404.
\<close>

theorem createAdmission_missing_bed_counterexample:
  "ia_bedId (admit_request\<lparr> ia_bedId := ''B9'' \<rparr>) \<notin> set (map bed_id (beds example_db))
   \<and> res_status (fst (serve deployed_env logged_in ''A1'' 5
         (PostAdmissions (admit_request\<lparr> ia_bedId := ''B9'' \<rparr>)) example_db)) = 500"
  by (simp add: serve_def isAuthenticated_def deployed_env_def logged_in_def truthy_def
      example_user_def admit_request_def example_db_def example_bed_def example_patient_def
      createAdmission_def failed_def Let_def)

subsection \<open>Generated identifiers\<close>

lemma createPatient_Inr:
  assumes "createPatient uuid now patient d = Inr (p, d')"
  shows "pat_patientId p = patient_code (length (patients d))"
    and "pat_id p = uuid" and "d' = d\<lparr> patients := patients d @ [p] \<rparr>"
  using assms by (auto simp: createPatient_def Let_def split: if_splits)

lemma createBill_result:
  assumes "createBill uuid now bill d = Inr (b, d')"
  shows "bill_billNumber b = bill_number (length (bills d))"
    and "bill_id b = uuid" and "d' = d\<lparr> bills := bills d @ [b] \<rparr>"
  using assms by (auto simp: createBill_def Let_def split: if_splits)

text \<open>
  Claim C8, as amended. A patient that \<^verbatim>\<open>createPatient\<close> stores has the code
  \<^verbatim>\<open>PAT-\<close> followed by the decimal digits of the number of patients before plus one,
  padded with zeros on the left to at least five characters; the digits denote that
  number. While that number is below 100000 the code matches \<^verbatim>\<open>PAT-\d{5}\<close>, and the
  code of the next patient created, while its number is below 100000, is greater as a
  string. The same holds for \<^verbatim>\<open>createBill\<close> with \<^verbatim>\<open>INV-\<close>, six characters,
  \<^verbatim>\<open>INV-\d{6}\<close> and 1000000.
\<close>

theorem generated_identifiers:
  "(createPatient uuid now patient d = Inr (p, d') \<longrightarrow>
        pat_patientId p = ''PAT-'' @ padStart 5 (CHR ''0'') (js_String (length (patients d) + 1))
      \<and> decimal_value (drop 4 (pat_patientId p)) = length (patients d) + 1
      \<and> patients d' = patients d @ [p]
      \<and> (length (patients d) + 1 < 100000 \<longrightarrow> matches_PAT (pat_patientId p))
      \<and> (\<forall>uuid2 now2 patient2 p2 d2.
            createPatient uuid2 now2 patient2 d' = Inr (p2, d2) \<and> length (patients d') + 1 < 100000
            \<longrightarrow> pat_patientId p < pat_patientId p2))
 \<and> (createBill uuid now bill d = Inr (b, e') \<longrightarrow>
        bill_billNumber b = ''INV-'' @ padStart 6 (CHR ''0'') (js_String (length (bills d) + 1))
      \<and> decimal_value (drop 4 (bill_billNumber b)) = length (bills d) + 1
      \<and> bills e' = bills d @ [b]
      \<and> (length (bills d) + 1 < 1000000 \<longrightarrow> matches_INV (bill_billNumber b))
      \<and> (\<forall>uuid2 now2 bill2 b2 e2.
            createBill uuid2 now2 bill2 e' = Inr (b2, e2) \<and> length (bills e') + 1 < 1000000
            \<longrightarrow> bill_billNumber b < bill_billNumber b2))"
proof (intro conjI impI)
  assume run: "createPatient uuid now patient d = Inr (p, d')"
  note r = createPatient_Inr[OF run]
  show "pat_patientId p = ''PAT-'' @ padStart 5 (CHR ''0'') (js_String (length (patients d) + 1))"
    using r(1) by (simp add: patient_code_def)
  show "decimal_value (drop 4 (pat_patientId p)) = length (patients d) + 1"
    using r(1) by (simp add: patient_code_value)
  show rows: "patients d' = patients d @ [p]"
    by (subst r(3)) simp
  show "matches_PAT (pat_patientId p)" if "length (patients d) + 1 < 100000"
    using r(1) that by (simp add: patient_code_matches)
  show "\<forall>uuid2 now2 patient2 p2 d2.
            createPatient uuid2 now2 patient2 d' = Inr (p2, d2) \<and> length (patients d') + 1 < 100000
            \<longrightarrow> pat_patientId p < pat_patientId p2"
  proof (intro allI impI, elim conjE)
    fix uuid2 now2 patient2 p2 d2
    assume run2: "createPatient uuid2 now2 patient2 d' = Inr (p2, d2)"
      and small: "length (patients d') + 1 < 100000"
    have "pat_patientId p2 = patient_code (length (patients d) + 1)"
      using createPatient_Inr(1)[OF run2] rows by simp
    moreover have "patient_code (length (patients d)) < patient_code (length (patients d) + 1)"
      by (rule patient_code_less) (use small rows in simp_all)
    ultimately show "pat_patientId p < pat_patientId p2" using r(1) by simp
  qed
next
  assume run: "createBill uuid now bill d = Inr (b, e')"
  note r = createBill_result[OF run]
  show "bill_billNumber b = ''INV-'' @ padStart 6 (CHR ''0'') (js_String (length (bills d) + 1))"
    using r(1) by (simp add: bill_number_def)
  show "decimal_value (drop 4 (bill_billNumber b)) = length (bills d) + 1"
    using r(1) by (simp add: bill_number_value)
  show rows: "bills e' = bills d @ [b]"
    by (subst r(3)) simp
  show "matches_INV (bill_billNumber b)" if "length (bills d) + 1 < 1000000"
    using r(1) that by (simp add: bill_number_matches)
  show "\<forall>uuid2 now2 bill2 b2 e2.
            createBill uuid2 now2 bill2 e' = Inr (b2, e2) \<and> length (bills e') + 1 < 1000000
            \<longrightarrow> bill_billNumber b < bill_billNumber b2"
  proof (intro allI impI, elim conjE)
    fix uuid2 now2 bill2 b2 e2
    assume run2: "createBill uuid2 now2 bill2 e' = Inr (b2, e2)"
      and small: "length (bills e') + 1 < 1000000"
    have "bill_billNumber b2 = bill_number (length (bills d) + 1)"
      using createBill_result(1)[OF run2] rows by simp
    moreover have "bill_number (length (bills d)) < bill_number (length (bills d) + 1)"
      by (rule bill_number_less) (use small rows in simp_all)
    ultimately show "bill_billNumber b < bill_billNumber b2" using r(1) by simp
  qed
qed

theorem generated_identifiers_witness:
  "(case createPatient ''P2'' 5 new_patient example_db of
      Inl e \<Rightarrow> False
    | Inr (p, d') \<Rightarrow> pat_patientId p = ''PAT-00002'' \<and> matches_PAT (pat_patientId p) \<and>
        (case createPatient ''P3'' 6 new_patient d' of
           Inl e \<Rightarrow> False
         | Inr (p2, d2) \<Rightarrow> pat_patientId p2 = ''PAT-00003'' \<and> pat_patientId p < pat_patientId p2))
   \<and> (case createBill ''BILL1'' 6 bill_request example_db of
      Inl e \<Rightarrow> False
    | Inr (b, d') \<Rightarrow> bill_billNumber b = ''INV-000001'' \<and> matches_INV (bill_billNumber b) \<and>
        (case createBill ''BILL2'' 7 bill_request d' of
           Inl e \<Rightarrow> False
         | Inr (b2, d2) \<Rightarrow> bill_billNumber b2 = ''INV-000002'' \<and> bill_billNumber b < bill_billNumber b2))"
  using generated_identifiers[where uuid = "''P2''" and now = 5 and patient = new_patient
      and d = example_db
      and p = "fst (projr (createPatient ''P2'' 5 new_patient example_db))"
      and d' = "snd (projr (createPatient ''P2'' 5 new_patient example_db))"]
    generated_identifiers[where uuid = "''BILL1''" and now = 6 and bill = bill_request
      and d = example_db
      and b = "fst (projr (createBill ''BILL1'' 6 bill_request example_db))"
      and e' = "snd (projr (createBill ''BILL1'' 6 bill_request example_db))"]
  by (simp add: createPatient_def createBill_def Let_def example_db_def example_patient_def
      new_patient_def bill_request_def patient_code_def bill_number_def padStart_def
      js_String_small digit_def replicate_numeral matches_PAT_def matches_INV_def is_digit_def)

lemma crowded_patients: "patients crowded_db = map numbered_patient [0..<99999]"
  "users crowded_db = [example_user]"
  by (simp_all add: crowded_db_def example_db_def)

lemma crowded_ids: "''new-id'' \<notin> set (map pat_id (patients crowded_db))"
  by (auto simp: crowded_patients numbered_patient_def)

lemma crowded_codes: "patient_code 99999 \<notin> set (map pat_patientId (patients crowded_db))"
proof
  assume "patient_code 99999 \<in> set (map pat_patientId (patients crowded_db))"
  then obtain i where i: "i < 99999" "patient_code i = patient_code 99999"
    by (auto simp: crowded_patients numbered_patient_def)
  from i(2) have "decimal_value (drop 4 (patient_code i)) = decimal_value (drop 4 (patient_code 99999))"
    by simp
  then have "i + 1 = 99999 + 1" unfolding patient_code_value .
  with i(1) show False by simp
qed

text \<open>
  Claim C8 as stated fails at the 100000th patient: with 99999 patients in the table
  the new code is \<^verbatim>\<open>PAT-100000\<close>, which has six digits and is not greater, as a
  string, than the code \<^verbatim>\<open>PAT-99999\<close> before it. Bill numbers do the same at the
  1000000th bill.
\<close>

theorem hundred_thousandth_patient_counterexample:
  "length (patients crowded_db) = 99999
   \<and> createPatient ''new-id'' 5 new_patient crowded_db
       = Inr (overflow_patient, crowded_db\<lparr> patients := patients crowded_db @ [overflow_patient] \<rparr>)
   \<and> pat_patientId overflow_patient = ''PAT-100000''
   \<and> \<not> matches_PAT (pat_patientId overflow_patient)
   \<and> patient_code 99998 = ''PAT-99999''
   \<and> \<not> (patient_code 99998 < pat_patientId overflow_patient)
   \<and> bill_number 999999 = ''INV-1000000'' \<and> \<not> matches_INV (bill_number 999999)
   \<and> \<not> (bill_number 999998 < bill_number 999999)"
  using crowded_ids crowded_codes
  by (simp add: createPatient_def Let_def crowded_patients new_patient_def overflow_patient_def
      overflow_codes overflow_order)

subsection \<open>Requests without a session\<close>

text \<open>
  Claim C9, as amended. When \<^verbatim>\<open>REPLIT_DEPLOYMENT_ID\<close> is set, a request with no
  authenticated user is answered 401 by the middleware and the handler is not run: the
  state is unchanged. This holds for any handler behind \<^verbatim>\<open>isAuthenticated\<close>, so for
  every route.
\<close>

theorem unauthenticated_request_rejected:
  assumes "truthy (REPLIT_DEPLOYMENT_ID e)" and "req_user req = None"
  shows "isAuthenticated e req next d = (\<lparr> res_status = 401, res_body = JError ''Unauthorized'' \<rparr>, d)
       \<and> serve e req uuid now call d = (\<lparr> res_status = 401, res_body = JError ''Unauthorized'' \<rparr>, d)"
  using assms by (simp add: isAuthenticated_def serve_def)

theorem unauthenticated_request_rejected_witness:
  "truthy (REPLIT_DEPLOYMENT_ID deployed_env) \<and> req_user anonymous = None
   \<and> serve deployed_env anonymous ''P2'' 5 (PostPatients new_patient) example_db
       = (\<lparr> res_status = 401, res_body = JError ''Unauthorized'' \<rparr>, example_db)"
  using unauthenticated_request_rejected[of deployed_env anonymous]
  by (simp add: deployed_env_def anonymous_def truthy_def)

text \<open>
  Claim C9 as stated fails: without \<^verbatim>\<open>REPLIT_DEPLOYMENT_ID\<close> the middleware lets
  every request through as \<^verbatim>\<open>demo-user\<close>. A request with no session then creates a
  patient: the answer is 201 and the state has changed.
\<close>

theorem demo_mode_counterexample:
  "req_user anonymous = None
   \<and> res_status (fst (serve dev_env anonymous ''P2'' 5 (PostPatients new_patient) example_db)) = 201
   \<and> snd (serve dev_env anonymous ''P2'' 5 (PostPatients new_patient) example_db) \<noteq> example_db"
  by (simp add: serve_def isAuthenticated_def dev_env_def anonymous_def truthy_def
      createPatient_def patient_code_def padStart_def js_String_small digit_def replicate_numeral
      new_patient_def example_db_def example_patient_def created_def Let_def)

subsection \<open>A login keeps the role\<close>

lemma login_fields_only_upsert_set: "login_fields_only x (upsert_set now userData x)"
  by (simp add: login_fields_only_def upsert_set_def)

lemma upsert_set_role: "user_role (upsert_set now userData x) = user_role x"
  by (simp add: upsert_set_def)

lemma upsert_set_id: "user_id (upsert_set now userData x) = user_id x"
  by (simp add: upsert_set_def)

lemma upsert_row_id: "uu_id userData = Some i \<Longrightarrow> user_id (upsert_row uuid now userData) = i"
  by (simp add: upsert_row_def)

lemma upsertUser_conflict:
  assumes "u \<in> set (users d)" and "uu_id userData = Some (user_id u)"
    and "upsertUser uuid now userData d = Inr (r, d')"
  shows "d' = d\<lparr> users := map (\<lambda>x. if user_id x = user_id u then upsert_set now userData x else x) (users d) \<rparr>"
    and "\<exists>old \<in> set (users d). user_id old = user_id u \<and> r = upsert_set now userData old"
proof -
  have ne: "filter (\<lambda>x. user_id x = user_id u) (users d) \<noteq> []"
    using assms(1) by (auto simp: filter_empty_conv)
  then obtain old rest where f: "filter (\<lambda>x. user_id x = user_id u) (users d) = old # rest"
    by (cases "filter (\<lambda>x. user_id x = user_id u) (users d)") auto
  from f have old: "old \<in> set (users d)" "user_id old = user_id u"
    using filter_hd_mem[OF f] by auto
  from assms(3) f show "d' = d\<lparr> users := map (\<lambda>x. if user_id x = user_id u then upsert_set now userData x else x) (users d) \<rparr>"
    by (auto simp: upsertUser_def Let_def upsert_row_id[OF assms(2)] split: if_splits)
  from assms(3) f have "r = upsert_set now userData old"
    by (auto simp: upsertUser_def Let_def upsert_row_id[OF assms(2)] split: if_splits)
  with old show "\<exists>old \<in> set (users d). user_id old = user_id u \<and> r = upsert_set now userData old"
    by blast
qed

lemma upsertUser_error:
  "upsertUser uuid now userData d = Inl e \<Longrightarrow> e = UniqueViolation ''users_email_unique''"
  by (auto simp: upsertUser_def Let_def split: list.splits if_splits)

lemma updateUserRole_users:
  "users (snd (updateUserRole i role t d0)) =
     map (\<lambda>x. if user_id x = i then x\<lparr> user_role := Some role, user_updatedAt := Some t \<rparr> else x) (users d0)"
  by (simp add: updateUserRole_def Let_def)

text \<open>
  Claim C10. When \<^verbatim>\<open>upsertUser\<close> is called with the id of an existing user and
  succeeds, the state differs from the one before in the \<^verbatim>\<open>users\<close> table only; there,
  rows with another id are untouched, and a row with that id differs at most in email,
  first name, last name, profile image and update time: its role is the one it had.
  The returned row is such a row. So when the state comes out of \<^verbatim>\<open>updateUserRole\<close>
  for that id, the returned row and every stored row with that id still have the role
  that was assigned. The only way \<^verbatim>\<open>upsertUser\<close> throws is on the unique email,
  and then there is no new state.
\<close>

theorem upsertUser_existing_keeps_role:
  assumes "u \<in> set (users d)" and "uu_id userData = Some (user_id u)"
  shows "(case upsertUser uuid now userData d of
            Inl e \<Rightarrow> e = UniqueViolation ''users_email_unique''
          | Inr (r, d') \<Rightarrow>
              d' = d\<lparr> users := users d' \<rparr> \<and>
              list_all2 (\<lambda>old new. if user_id old = user_id u
                                   then login_fields_only old new \<and> user_role new = user_role old
                                   else new = old) (users d) (users d') \<and>
              (\<exists>old \<in> set (users d). user_id old = user_id u \<and> login_fields_only old r
                   \<and> user_role r = user_role old))
       \<and> (\<forall>role t d0. d = snd (updateUserRole (user_id u) role t d0) \<longrightarrow>
            (case upsertUser uuid now userData d of
               Inl e \<Rightarrow> True
             | Inr (r, d') \<Rightarrow> user_role r = Some role \<and>
                 (\<forall>x \<in> set (users d'). user_id x = user_id u \<longrightarrow> user_role x = Some role)))"
proof (cases "upsertUser uuid now userData d")
  case (Inl e)
  show ?thesis unfolding Inl using upsertUser_error[OF Inl] by simp
next
  case (Inr p)
  obtain r d' where p: "p = (r, d')" by (cases p)
  note res = Inr[unfolded p]
  note c1 = upsertUser_conflict(1)[OF assms res]
  note c2 = upsertUser_conflict(2)[OF assms res]
  have us: "users d' = map (\<lambda>x. if user_id x = user_id u then upsert_set now userData x else x) (users d)"
    using arg_cong[OF c1, of users] by simp
  have a: "d' = d\<lparr> users := users d' \<rparr>"
    unfolding us by (rule c1)
  have b: "list_all2 (\<lambda>old new. if user_id old = user_id u
                                   then login_fields_only old new \<and> user_role new = user_role old
                                   else new = old) (users d) (users d')"
    unfolding us list_all2_map2
    by (rule list_all2_refl) (simp add: login_fields_only_upsert_set upsert_set_role)
  have c: "\<exists>old \<in> set (users d). user_id old = user_id u \<and> login_fields_only old r
                   \<and> user_role r = user_role old"
    using c2 by (auto simp: login_fields_only_upsert_set upsert_set_role)
  have e: "user_role r = Some role \<and>
                 (\<forall>x \<in> set (users d'). user_id x = user_id u \<longrightarrow> user_role x = Some role)"
    if "d = snd (updateUserRole (user_id u) role t d0)" for role t d0
  proof -
    have ud: "users d = map (\<lambda>x. if user_id x = user_id u then x\<lparr> user_role := Some role, user_updatedAt := Some t \<rparr> else x) (users d0)"
      using that updateUserRole_users by simp
    have all: "\<forall>x \<in> set (users d). user_id x = user_id u \<longrightarrow> user_role x = Some role"
      unfolding ud by auto
    from c all have "user_role r = Some role" by auto
    moreover have "\<forall>x \<in> set (users d'). user_id x = user_id u \<longrightarrow> user_role x = Some role"
      unfolding us using all by (auto simp: upsert_set_role upsert_set_id)
    ultimately show ?thesis by simp
  qed
  show ?thesis
    unfolding res using a b c e by simp
qed

text \<open>
  The theorem at work: the example user, a nurse, logs in with a new email and stays a
  nurse; made an admin first, the user logs in and stays an admin.
\<close>

theorem upsertUser_existing_keeps_role_witness:
  "example_user \<in> set (users example_db) \<and> uu_id login_claims = Some (user_id example_user)
   \<and> (case upsertUser ''fresh'' 7 login_claims example_db of
         Inl e \<Rightarrow> False
       | Inr (r, d') \<Rightarrow> user_role r = Some ''nurse''
            \<and> user_email r = Some ''ann.lee@medicare.example'' \<and> users d' = [r])
   \<and> (case upsertUser ''fresh'' 7 login_claims (snd (updateUserRole ''U1'' ''admin'' 3 example_db)) of
         Inl e \<Rightarrow> False
       | Inr (r, d') \<Rightarrow> user_role r = Some ''admin'' \<and> users d' = [r])"
  using upsertUser_existing_keeps_role[of example_user example_db login_claims "''fresh''" 7]
    upsertUser_existing_keeps_role[of "example_user\<lparr> user_role := Some ''admin'', user_updatedAt := Some 3 \<rparr>"
      "snd (updateUserRole ''U1'' ''admin'' 3 example_db)" login_claims "''fresh''" 7]
  by (simp add: upsertUser_def upsert_row_def upsert_set_def updateUserRole_def email_taken_def
      login_claims_def example_db_def example_user_def Let_def)

end
